theory Spec2Isabelle
  imports Complex_Main "HOL-Library.Multiset" "HOL-Library.List_Lexorder" "HOL-Library.Char_ord"
begin

section \<open>Shared vocabulary of the two dashboards\<close>

text \<open>
  A JavaScript \<open>number\<close>. The dashboards only carry numbers around and compare them
  with zero; no arithmetic is done on them.
\<close>

datatype number = NaN | NegInfinity | Num real | PosInfinity

fun isNaN :: "number \<Rightarrow> bool" where
  "isNaN NaN = True"
| "isNaN _ = False"

fun gt_zero :: "number \<Rightarrow> bool" where
  "gt_zero (Num r) = (r > 0)"
| "gt_zero PosInfinity = True"
| "gt_zero _ = False"

fun ge_zero :: "number \<Rightarrow> bool" where
  "ge_zero (Num r) = (r \<ge> 0)"
| "ge_zero PosInfinity = True"
| "ge_zero _ = False"

text \<open>Every error object the code throws or receives is read through \<open>.message\<close> only.\<close>

datatype error = Error (message: string)

text \<open>
  An \<open>async\<close> function returns a promise: it resolves, or it rejects with the error
  thrown. The state reached is kept in both cases, since state setters called before a
  \<open>throw\<close> are not undone.
\<close>

datatype 's outcome = Resolved 's | Rejected error 's

text \<open>\<open>try { body } catch (error) { handler }\<close>\<close>

definition try_catch :: "'s outcome \<Rightarrow> (error \<Rightarrow> 's \<Rightarrow> 's outcome) \<Rightarrow> 's outcome" where
  "try_catch body handler =
     (case body of Resolved s \<Rightarrow> Resolved s | Rejected e s \<Rightarrow> handler e s)"

text \<open>\<open>... finally { cleanup }\<close>: the cleanup runs on return and on throw alike.\<close>

definition try_finally :: "'s outcome \<Rightarrow> ('s \<Rightarrow> 's) \<Rightarrow> 's outcome" where
  "try_finally body cleanup =
     (case body of Resolved s \<Rightarrow> Resolved (cleanup s) | Rejected e s \<Rightarrow> Rejected e (cleanup s))"

text \<open>
  A call \<open>f()\<close> of an async function that is not awaited: the caller goes on whatever
  the promise does; a rejection would stay with the promise.
\<close>

fun detached :: "'s outcome \<Rightarrow> 's" where
  "detached (Resolved s) = s"
| "detached (Rejected e s) = s"

subsection \<open>The hosted backend\<close>

record Session =
  user_id :: string

text \<open>What a query-builder chain \<open>from(..).select(..).eq(..).order(..).single()\<close> asks for.\<close>

record query =
  from_table :: string
  columns :: string
  eq_filters :: "(string \<times> string) list"
  order_by :: "(string \<times> bool) option"
  single_row :: bool

text \<open>The \<open>{ data, error }\<close> object every backend call answers with.\<close>

record 'a response =
  data :: "'a option"
  error :: "error option"

datatype order_status = pending | accepted | in_transit | delivered | cancelled

record Order =
  order_id :: string
  product_name :: string
  product_price :: number
  quantity :: number
  total_amount :: number
  delivery_address :: string
  customer_phone :: string
  status :: order_status
  created_at :: string
  rider_id :: "string option"

record role_row =
  role :: string

record Product =
  p_id :: string
  p_name :: string
  p_description :: "string option"
  p_price :: number
  p_image_url :: "string option"
  p_stock :: number
  p_category :: "string option"
  p_created_at :: string

text \<open>The column values \<open>insert\<close> and \<open>update\<close> send for a product.\<close>

record product_values =
  row_name :: string
  row_description :: "string option"
  row_price :: number
  row_image_url :: "string option"
  row_stock :: number
  row_category :: "string option"

record File =
  file_name :: string
  file_size :: nat

text \<open>
  The backend is an external collaborator. It is taken as a parameter: each field is the
  answer the platform gives to that call while the operation under study runs.
  \<open>insert_product\<close> takes the \<open>vendor_id\<close> of the new row and its other columns;
  \<open>update_product\<close> and \<open>delete_product\<close> take the \<open>eq\<close> filters of the call.
\<close>

record supabase =
  auth_getSession :: "Session option"
  from_user_roles :: "query \<Rightarrow> role_row response"
  from_orders :: "query \<Rightarrow> Order list response"
  from_products :: "query \<Rightarrow> Product list response"
  insert_product :: "string \<Rightarrow> product_values \<Rightarrow> error option"
  update_product :: "product_values \<Rightarrow> (string \<times> string) list \<Rightarrow> error option"
  delete_product :: "(string \<times> string) list \<Rightarrow> error option"
  storage_upload :: "string \<Rightarrow> string \<Rightarrow> File \<Rightarrow> error option"
  storage_getPublicUrl :: "string \<Rightarrow> string \<Rightarrow> string"

text \<open>
  The JavaScript built-ins the vendor form calls, and the clock. They are parameters:
  number parsing is floating point, and \<open>trim\<close> follows the Unicode tables.
\<close>

record js =
  trim :: "string \<Rightarrow> string"
  parseFloat :: "string \<Rightarrow> number"
  parseInt :: "string \<Rightarrow> number"
  Date_now :: nat

subsection \<open>What a page shows and does besides its own state\<close>

datatype toast = toast_error string | toast_success string

text \<open>The payload of a change-feed event; the dashboard logs it and reads nothing of it.\<close>

record change =
  eventType :: string
  change_schema :: string
  change_table :: string

datatype console_entry = console_log string change | console_error error

record page =
  loading :: bool
  toasts :: "toast list"
  navigations :: "string list"
  console :: "console_entry list"

definition notify :: "toast \<Rightarrow> ('a page_scheme) \<Rightarrow> ('a page_scheme)" where
  "notify t s = s\<lparr>toasts := toasts s @ [t]\<rparr>"

definition navigate :: "string \<Rightarrow> ('a page_scheme) \<Rightarrow> ('a page_scheme)" where
  "navigate path s = s\<lparr>navigations := navigations s @ [path]\<rparr>"

definition log_console :: "console_entry \<Rightarrow> ('a page_scheme) \<Rightarrow> ('a page_scheme)" where
  "log_console entry s = s\<lparr>console := console s @ [entry]\<rparr>"

definition setLoading :: "bool \<Rightarrow> ('a page_scheme) \<Rightarrow> ('a page_scheme)" where
  "setLoading v s = s\<lparr>loading := v\<rparr>"

section \<open>CustomerDashboard.tsx\<close>

record CustomerDashboard = page +
  activeOrders :: "Order list"
  orderHistory :: "Order list"

definition setActiveOrders :: "Order list \<Rightarrow> CustomerDashboard \<Rightarrow> CustomerDashboard" where
  "setActiveOrders v s = s\<lparr>activeOrders := v\<rparr>"

definition setOrderHistory :: "Order list \<Rightarrow> CustomerDashboard \<Rightarrow> CustomerDashboard" where
  "setOrderHistory v s = s\<lparr>orderHistory := v\<rparr>"

text \<open>The component as first rendered: both lists empty, \<open>loading\<close> true.\<close>

definition initial_CustomerDashboard :: CustomerDashboard where
  "initial_CustomerDashboard =
     \<lparr>loading = True, toasts = [], navigations = [], console = [],
      activeOrders = [], orderHistory = []\<rparr>"

definition orders_query :: "Session \<Rightarrow> query" where
  "orders_query session =
     \<lparr>from_table = ''orders'', columns = ''*'',
      eq_filters = [(''customer_id'', user_id session)],
      order_by = Some (''created_at'', False), single_row = False\<rparr>"

text \<open>\<open>data || []\<close>\<close>

definition or_empty :: "'a list option \<Rightarrow> 'a list" where
  "or_empty rows = (case rows of None \<Rightarrow> [] | Some xs \<Rightarrow> xs)"

text \<open>\<open>ordersData?.filter(pred) || []\<close>\<close>

definition filter_or_empty :: "('a \<Rightarrow> bool) \<Rightarrow> 'a list option \<Rightarrow> 'a list" where
  "filter_or_empty pred ordersData =
     (case ordersData of None \<Rightarrow> [] | Some rows \<Rightarrow> filter pred rows)"

text \<open>The body of the \<open>try\<close> block of \<open>loadOrders\<close>.\<close>

definition loadOrders_try :: "supabase \<Rightarrow> CustomerDashboard \<Rightarrow> CustomerDashboard outcome" where
  "loadOrders_try b s =
     (case auth_getSession b of
        None \<Rightarrow> Resolved s
      | Some session \<Rightarrow>
          (let r = from_orders b (orders_query session) in
           case error r of
             Some e \<Rightarrow> Rejected e s
           | None \<Rightarrow>
               (let active = filter_or_empty
                      (\<lambda>order. status order \<in> set [pending, accepted, in_transit]) (data r);
                    history = filter_or_empty
                      (\<lambda>order. status order \<in> set [delivered, cancelled]) (data r)
                in Resolved (setOrderHistory history (setActiveOrders active s)))))"

definition loadOrders :: "supabase \<Rightarrow> CustomerDashboard \<Rightarrow> CustomerDashboard outcome" where
  "loadOrders b s =
     try_finally
       (try_catch (loadOrders_try b s)
          (\<lambda>e s'. Resolved (log_console (console_error e) (notify (toast_error ''Failed to load orders'') s'))))
       (setLoading False)"

definition roles_query :: "Session \<Rightarrow> query" where
  "roles_query session =
     \<lparr>from_table = ''user_roles'', columns = ''role'',
      eq_filters = [(''user_id'', user_id session)],
      order_by = None, single_row = True\<rparr>"

text \<open>\<open>roleData?.role\<close>: undefined when the lookup gave no row.\<close>

definition role_of :: "role_row option \<Rightarrow> string option" where
  "role_of roleData = map_option role roleData"

definition checkCustomerAndLoadOrders ::
    "supabase \<Rightarrow> CustomerDashboard \<Rightarrow> CustomerDashboard outcome" where
  "checkCustomerAndLoadOrders b s =
     (case auth_getSession b of
        None \<Rightarrow> Resolved (navigate ''/auth'' s)
      | Some session \<Rightarrow>
          (let roleData = data (from_user_roles b (roles_query session)) in
           if role_of roleData \<noteq> Some ''customer''
           then Resolved (navigate ''/''
                  (notify (toast_error ''Access denied. Customer account required.'') s))
           else Resolved (detached (loadOrders b s))))"

subsection \<open>The realtime subscription\<close>

record postgres_changes_filter =
  event :: string
  schema :: string
  table :: string

text \<open>The filter the component subscribes with on mount.\<close>

definition customer_orders_changes :: postgres_changes_filter where
  "customer_orders_changes = \<lparr>event = ''UPDATE'', schema = ''public'', table = ''orders''\<rparr>"

text \<open>
  The change feed of the platform calls a subscriber back for the changes its filter
  names: the event named, or every event under \<open>*\<close>, on the schema and table named.
\<close>

definition delivers :: "postgres_changes_filter \<Rightarrow> change \<Rightarrow> bool" where
  "delivers f c \<longleftrightarrow>
     (event f = ''*'' \<or> event f = eventType c) \<and> schema f = change_schema c \<and> table f = change_table c"

text \<open>The callback given to \<open>.on(..)\<close>.\<close>

definition on_postgres_changes :: "supabase \<Rightarrow> change \<Rightarrow> CustomerDashboard \<Rightarrow> CustomerDashboard" where
  "on_postgres_changes b payload s =
     detached (loadOrders b (log_console (console_log ''Order updated:'' payload) s))"

text \<open>What a change signalled by the feed does to the mounted component.\<close>

definition change_signalled :: "supabase \<Rightarrow> change \<Rightarrow> CustomerDashboard \<Rightarrow> CustomerDashboard" where
  "change_signalled b c s =
     (if delivers customer_orders_changes c then on_postgres_changes b c s else s)"

section \<open>VendorDashboard.tsx\<close>

record FormData =
  name :: string
  description :: string
  price :: string
  stock :: string
  category :: string

record VendorDashboard = page +
  products :: "Product list"
  isDialogOpen :: bool
  imageFile :: "File option"
  imagePreview :: string
  uploading :: bool
  editingProduct :: "Product option"
  formData :: FormData

definition setProducts :: "Product list \<Rightarrow> VendorDashboard \<Rightarrow> VendorDashboard" where
  "setProducts v s = s\<lparr>products := v\<rparr>"

definition setIsDialogOpen :: "bool \<Rightarrow> VendorDashboard \<Rightarrow> VendorDashboard" where
  "setIsDialogOpen v s = s\<lparr>isDialogOpen := v\<rparr>"

definition setUploading :: "bool \<Rightarrow> VendorDashboard \<Rightarrow> VendorDashboard" where
  "setUploading v s = s\<lparr>uploading := v\<rparr>"

subsection \<open>productSchema\<close>

text \<open>
  The issues the schema raises on a form, in the order of its keys and, within a key, of
  its checks. The messages of the \<open>max\<close> checks are the validation library's defaults.
\<close>

definition max_issue :: "nat \<Rightarrow> string \<Rightarrow> string list \<Rightarrow> string list" where
  "max_issue n val msg = (if length val > n then msg else [])"

definition productSchema_issues :: "js \<Rightarrow> FormData \<Rightarrow> string list" where
  "productSchema_issues rt f =
     (if length (trim rt (name f)) < 1 then [''Product name is required''] else [])
     @ max_issue 100 (trim rt (name f)) [''String must contain at most 100 character(s)'']
     @ max_issue 1000 (trim rt (description f)) [''String must contain at most 1000 character(s)'']
     @ (if \<not> isNaN (parseFloat rt (price f)) \<and> gt_zero (parseFloat rt (price f))
        then [] else [''Price must be greater than 0''])
     @ (if \<not> isNaN (parseInt rt (stock f)) \<and> ge_zero (parseInt rt (stock f))
        then [] else [''Stock must be 0 or greater''])
     @ max_issue 50 (trim rt (category f)) [''String must contain at most 50 character(s)'']"

text \<open>\<open>validationResult.data\<close>: the form with the trimmed fields trimmed.\<close>

definition productSchema_data :: "js \<Rightarrow> FormData \<Rightarrow> FormData" where
  "productSchema_data rt f =
     \<lparr>name = trim rt (name f), description = trim rt (description f),
      price = price f, stock = stock f, category = trim rt (category f)\<rparr>"

subsection \<open>Loading, uploading, resetting\<close>

definition products_query :: query where
  "products_query =
     \<lparr>from_table = ''products'', columns = ''*'', eq_filters = [],
      order_by = Some (''created_at'', False), single_row = False\<rparr>"

definition loadProducts :: "supabase \<Rightarrow> VendorDashboard \<Rightarrow> VendorDashboard outcome" where
  "loadProducts b s =
     try_finally
       (try_catch
          (let r = from_products b products_query in
           case error r of
             Some e \<Rightarrow> Rejected e s
           | None \<Rightarrow> Resolved (setProducts (or_empty (data r)) s))
          (\<lambda>e s'. Resolved (notify (toast_error ''Failed to load products'') s')))
       (setLoading False)"

text \<open>\<open>file.name.split('.').pop()\<close>: what follows the last dot, the whole name without one.\<close>

definition fileExt :: "string \<Rightarrow> string" where
  "fileExt nm = rev (takeWhile (\<lambda>c. c \<noteq> CHR ''.'') (rev nm))"

text \<open>A natural number in decimal, as a template literal prints it.\<close>

fun digits :: "nat \<Rightarrow> string" where
  "digits n =
     (if n < 10 then [''0123456789'' ! n]
      else digits (n div 10) @ [''0123456789'' ! (n mod 10)])"

declare digits.simps [simp del]

definition uploadImage :: "js \<Rightarrow> supabase \<Rightarrow> File \<Rightarrow> error + string" where
  "uploadImage rt b file =
     (case auth_getSession b of
        None \<Rightarrow> Inl (Error ''Not authenticated'')
      | Some session \<Rightarrow>
          (let fileName = user_id session @ ''-'' @ digits (Date_now rt) @ ''.'' @ fileExt (file_name file);
               filePath = fileName
           in case storage_upload b ''product-images'' filePath file of
                Some uploadError \<Rightarrow> Inl uploadError
              | None \<Rightarrow> Inr (storage_getPublicUrl b ''product-images'' filePath)))"

definition resetForm :: "VendorDashboard \<Rightarrow> VendorDashboard" where
  "resetForm s =
     s\<lparr>formData := \<lparr>name = '''', description = '''', price = '''', stock = '''', category = ''''\<rparr>,
       imageFile := None, imagePreview := '''', editingProduct := None\<rparr>"

subsection \<open>handleSubmit and handleDelete\<close>

text \<open>\<open>x || null\<close> on a string: the empty string is falsy.\<close>

definition or_null :: "string \<Rightarrow> string option" where
  "or_null x = (if x = '''' then None else Some x)"

text \<open>\<open>editingProduct?.image_url || null\<close>\<close>

definition current_image_url :: "Product option \<Rightarrow> string option" where
  "current_image_url editing =
     (case editing of
        None \<Rightarrow> None
      | Some p \<Rightarrow> (case p_image_url p of None \<Rightarrow> None | Some u \<Rightarrow> or_null u))"

text \<open>The image URL to save: the one of a newly chosen file once uploaded, or the current one.\<close>

definition imageUrl_to_save :: "js \<Rightarrow> supabase \<Rightarrow> VendorDashboard \<Rightarrow> error + string option" where
  "imageUrl_to_save rt b s =
     (case imageFile s of
        None \<Rightarrow> Inr (current_image_url (editingProduct s))
      | Some file \<Rightarrow>
          (case uploadImage rt b file of Inl e \<Rightarrow> Inl e | Inr url \<Rightarrow> Inr (Some url)))"

text \<open>The object literal both \<open>update\<close> and \<open>insert\<close> are given (the latter with \<open>vendor_id\<close>).\<close>

definition values_of :: "js \<Rightarrow> FormData \<Rightarrow> string option \<Rightarrow> product_values" where
  "values_of rt vdata imageUrl =
     \<lparr>row_name = name vdata,
      row_description = or_null (description vdata),
      row_price = parseFloat rt (price vdata),
      row_image_url = imageUrl,
      row_stock = parseInt rt (stock vdata),
      row_category = or_null (category vdata)\<rparr>"

text \<open>The three statements that end the \<open>try\<close> block of \<open>handleSubmit\<close>.\<close>

definition submitted :: "supabase \<Rightarrow> VendorDashboard \<Rightarrow> VendorDashboard" where
  "submitted b s = detached (loadProducts b (resetForm (setIsDialogOpen False s)))"

text \<open>The \<open>try\<close> block of \<open>handleSubmit\<close>, after \<open>setUploading(true)\<close>.\<close>

definition handleSubmit_try :: "js \<Rightarrow> supabase \<Rightarrow> VendorDashboard \<Rightarrow> VendorDashboard outcome" where
  "handleSubmit_try rt b s =
     (case productSchema_issues rt (formData s) of
        firstError # _ \<Rightarrow> Resolved (notify (toast_error firstError) s)
      | [] \<Rightarrow>
          (case auth_getSession b of
             None \<Rightarrow> Rejected (Error ''Not authenticated'') s
           | Some session \<Rightarrow>
               (case imageUrl_to_save rt b s of
                  Inl e \<Rightarrow> Rejected e s
                | Inr imageUrl \<Rightarrow>
                    (let vals = values_of rt (productSchema_data rt (formData s)) imageUrl in
                     case editingProduct s of
                       Some p \<Rightarrow>
                         (case update_product b vals [(''id'', p_id p)] of
                            Some e \<Rightarrow> Rejected e s
                          | None \<Rightarrow>
                              Resolved (submitted b
                                (notify (toast_success ''Product updated successfully!'') s)))
                     | None \<Rightarrow>
                         (case insert_product b (user_id session) vals of
                            Some e \<Rightarrow> Rejected e s
                          | None \<Rightarrow>
                              Resolved (submitted b
                                (notify (toast_success ''Product added successfully!'') s)))))))"

text \<open>The message of the \<open>catch\<close> block: \<open>error.message || `Failed to ${..} product`\<close>.\<close>

definition submit_failure_message :: "error \<Rightarrow> Product option \<Rightarrow> string" where
  "submit_failure_message e editing =
     (if message e \<noteq> '''' then message e
      else ''Failed to '' @ (if editing \<noteq> None then ''update'' else ''add'') @ '' product'')"

definition handleSubmit :: "js \<Rightarrow> supabase \<Rightarrow> VendorDashboard \<Rightarrow> VendorDashboard outcome" where
  "handleSubmit rt b s =
     try_finally
       (try_catch (handleSubmit_try rt b (setUploading True s))
          (\<lambda>e s'. Resolved (notify (toast_error (submit_failure_message e (editingProduct s))) s')))
       (setUploading False)"

definition handleDelete :: "supabase \<Rightarrow> string \<Rightarrow> VendorDashboard \<Rightarrow> VendorDashboard outcome" where
  "handleDelete b pid s =
     try_catch
       (case delete_product b [(''id'', pid)] of
          Some e \<Rightarrow> Rejected e s
        | None \<Rightarrow>
            Resolved (detached (loadProducts b
              (notify (toast_success ''Product deleted successfully!'') s))))
       (\<lambda>e s'. Resolved (notify (toast_error ''Failed to delete product'') s'))"

section \<open>Example inputs\<close>

definition ada :: Session where
  "ada = \<lparr>user_id = ''ada''\<rparr>"

definition order_T1 :: Order where
  "order_T1 =
     \<lparr>order_id = ''o-1'', product_name = ''Jollof rice'', product_price = Num 2500,
      quantity = Num 2, total_amount = Num 5000, delivery_address = ''12 Allen Avenue, Ikeja'',
      customer_phone = ''08030000001'', status = pending,
      created_at = ''2024-03-01T09:00:00+00:00'', rider_id = None\<rparr>"

definition order_T2 :: Order where
  "order_T2 =
     \<lparr>order_id = ''o-2'', product_name = ''Suya'', product_price = Num 1500,
      quantity = Num 1, total_amount = Num 1500, delivery_address = ''12 Allen Avenue, Ikeja'',
      customer_phone = ''08030000001'', status = delivered,
      created_at = ''2024-03-02T09:00:00+00:00'', rider_id = Some ''rider-7''\<rparr>"

definition yam :: Product where
  "yam =
     \<lparr>p_id = ''p-1'', p_name = ''Yam'', p_description = None, p_price = Num 800,
      p_image_url = None, p_stock = Num 40, p_category = Some ''Produce'',
      p_created_at = ''2024-02-11T08:00:00+00:00''\<rparr>"

definition garri :: Product where
  "garri =
     \<lparr>p_id = ''p-2'', p_name = ''Garri'', p_description = Some ''White garri, 1kg'',
      p_price = Num 1200, p_image_url = None, p_stock = Num 15, p_category = None,
      p_created_at = ''2024-02-10T08:00:00+00:00''\<rparr>"

text \<open>
  A backend that knows one user, with the session, role row and answers given: the orders
  answer goes to the query for that user's orders, the products answer to every query on
  products, and \<open>mutation\<close> is the error, if any, of every insert, update and delete.
\<close>

definition demo_supabase ::
    "Session option \<Rightarrow> role_row option \<Rightarrow> Order list response \<Rightarrow> Product list response
       \<Rightarrow> error option \<Rightarrow> supabase" where
  "demo_supabase sess roleData orders prods mutation =
     \<lparr>auth_getSession = sess,
      from_user_roles = (\<lambda>q. \<lparr>data = roleData, error = None\<rparr>),
      from_orders = (\<lambda>q. if eq_filters q = [(''customer_id'', ''ada'')] then orders
                          else \<lparr>data = Some [], error = None\<rparr>),
      from_products = (\<lambda>q. prods),
      insert_product = (\<lambda>vendor vals. mutation),
      update_product = (\<lambda>vals filters. mutation),
      delete_product = (\<lambda>filters. mutation),
      storage_upload = (\<lambda>bucket path file. None),
      storage_getPublicUrl = (\<lambda>bucket path. ''https://cdn.example/'' @ bucket @ ''/'' @ path)\<rparr>"

definition two_orders :: "Order list response" where
  "two_orders = \<lparr>data = Some [order_T2, order_T1], error = None\<rparr>"

definition fetch_failed :: "'a response" where
  "fetch_failed = \<lparr>data = None, error = Some (Error ''TypeError: Failed to fetch'')\<rparr>"

definition no_rows :: "'a list response" where
  "no_rows = \<lparr>data = Some [], error = None\<rparr>"

text \<open>Ada signed in as a customer, with her two orders in the store.\<close>

definition customer_backend :: supabase where
  "customer_backend =
     demo_supabase (Some ada) (Some \<lparr>role = ''customer''\<rparr>) two_orders no_rows None"

text \<open>A dashboard that already shows the two orders.\<close>

definition showing_two_orders :: CustomerDashboard where
  "showing_two_orders =
     initial_CustomerDashboard\<lparr>loading := False, activeOrders := [order_T1], orderHistory := [order_T2]\<rparr>"

subsection \<open>Ordering of a list of orders\<close>

text \<open>Descending creation time, for a given order \<open>later_eq\<close> on timestamps.\<close>

definition newest_first :: "(string \<Rightarrow> string \<Rightarrow> bool) \<Rightarrow> Order list \<Rightarrow> bool" where
  "newest_first later_eq rows = sorted_wrt (\<lambda>a b. later_eq (created_at a) (created_at b)) rows"

text \<open>Two events of the change feed on the orders table.\<close>

definition order_inserted :: change where
  "order_inserted = \<lparr>eventType = ''INSERT'', change_schema = ''public'', change_table = ''orders''\<rparr>"

definition order_updated :: change where
  "order_updated = \<lparr>eventType = ''UPDATE'', change_schema = ''public'', change_table = ''orders''\<rparr>"

text \<open>The vendor dashboard as first rendered.\<close>

definition initial_VendorDashboard :: VendorDashboard where
  "initial_VendorDashboard =
     \<lparr>loading = True, toasts = [], navigations = [], console = [],
      products = [], isDialogOpen = False, imageFile = None, imagePreview = '''',
      uploading = False, editingProduct = None,
      formData = \<lparr>name = '''', description = '''', price = '''', stock = '''', category = ''''\<rparr>\<rparr>"

text \<open>The dialog open on a new product, and open on an edit of \<open>garri\<close>.\<close>

definition adding_yam :: VendorDashboard where
  "adding_yam =
     initial_VendorDashboard\<lparr>loading := False, products := [garri], isDialogOpen := True,
       formData := \<lparr>name = ''Yam'', description = '''', price = ''800'', stock = ''40'',
                    category = ''Produce''\<rparr>\<rparr>"

definition editing_garri :: VendorDashboard where
  "editing_garri =
     initial_VendorDashboard\<lparr>loading := False, products := [garri], isDialogOpen := True,
       editingProduct := Some garri,
       formData := \<lparr>name = ''Garri'', description = ''White garri, 1kg'', price = ''1300'',
                    stock = ''15'', category = ''''\<rparr>\<rparr>"

definition demo_js :: js where
  "demo_js =
     \<lparr>trim = (\<lambda>x. rev (dropWhile (\<lambda>c. c = CHR '' '') (rev (dropWhile (\<lambda>c. c = CHR '' '') x)))),
      parseFloat = (\<lambda>x. if x = ''800'' then Num 800 else if x = ''1300'' then Num 1300 else NaN),
      parseInt = (\<lambda>x. if x = ''40'' then Num 40 else if x = ''15'' then Num 15 else NaN),
      Date_now = 1709283600000\<rparr>"

definition bisi :: Session where
  "bisi = \<lparr>user_id = ''bisi''\<rparr>"

definition permission_denied :: error where
  "permission_denied = Error ''permission denied for table products''"

text \<open>Bisi signed in as a vendor; the store answers every mutation with the error given.\<close>

definition vendor_backend :: "error option \<Rightarrow> supabase" where
  "vendor_backend mutation =
     demo_supabase (Some bisi) (Some \<lparr>role = ''vendor''\<rparr>) no_rows
       \<lparr>data = Some [yam, garri], error = None\<rparr> mutation"

section \<open>Properties\<close>

subsection \<open>The customer dashboard\<close>

lemma filter_or_empty_eq: "filter_or_empty p d = filter p (or_empty d)"
  by (simp add: filter_or_empty_def or_empty_def split: option.splits)

lemma loadOrders_success:
  assumes "auth_getSession b = Some session"
    and "error (from_orders b (orders_query session)) = None"
  shows "loadOrders b s =
     Resolved (s\<lparr>loading := False,
        activeOrders := filter (\<lambda>order. status order \<in> {pending, accepted, in_transit})
           (or_empty (data (from_orders b (orders_query session)))),
        orderHistory := filter (\<lambda>order. status order \<in> {delivered, cancelled})
           (or_empty (data (from_orders b (orders_query session))))\<rparr>)"
  using assms
  by (simp add: loadOrders_def loadOrders_try_def try_finally_def try_catch_def Let_def
      filter_or_empty_eq setLoading_def setActiveOrders_def setOrderHistory_def)

lemma loadOrders_failure:
  assumes "auth_getSession b = Some session"
    and "error (from_orders b (orders_query session)) = Some e"
  shows "loadOrders b s =
     Resolved (s\<lparr>loading := False,
        toasts := toasts s @ [toast_error ''Failed to load orders''],
        console := console s @ [console_error e]\<rparr>)"
  using assms
  by (simp add: loadOrders_def loadOrders_try_def try_finally_def try_catch_def Let_def
      notify_def log_console_def setLoading_def)

lemma loadOrders_no_session:
  assumes "auth_getSession b = None"
  shows "loadOrders b s = Resolved (s\<lparr>loading := False\<rparr>)"
  using assms
  by (simp add: loadOrders_def loadOrders_try_def try_finally_def try_catch_def setLoading_def)

lemma customer_backend_session: "auth_getSession customer_backend = Some ada"
  by (simp add: customer_backend_def demo_supabase_def)

lemma customer_backend_orders: "from_orders customer_backend (orders_query ada) = two_orders"
  by (simp add: customer_backend_def demo_supabase_def orders_query_def ada_def)

lemma status_cases:
  "status order \<in> {pending, accepted, in_transit} \<longleftrightarrow> status order \<notin> {delivered, cancelled}"
  by (cases "status order") simp_all

text \<open>
  C1. On a successful fetch, every order fetched with status pending, accepted or
  in_transit is in \<open>activeOrders\<close> and not in \<open>orderHistory\<close>; every order fetched with
  status delivered or cancelled is in \<open>orderHistory\<close> and not in \<open>activeOrders\<close>; each
  order fetched is in exactly one of the two lists.
\<close>
theorem loadOrders_partition:
  assumes "auth_getSession b = Some session"
    and "error (from_orders b (orders_query session)) = None"
    and "order \<in> set (or_empty (data (from_orders b (orders_query session))))"
  shows "\<exists>s'. loadOrders b s = Resolved s' \<and>
     (status order \<in> {pending, accepted, in_transit} \<longrightarrow>
        order \<in> set (activeOrders s') \<and> order \<notin> set (orderHistory s')) \<and>
     (status order \<in> {delivered, cancelled} \<longrightarrow>
        order \<in> set (orderHistory s') \<and> order \<notin> set (activeOrders s')) \<and>
     (order \<in> set (activeOrders s') \<longleftrightarrow> order \<notin> set (orderHistory s'))"
proof -
  let ?rows = "or_empty (data (from_orders b (orders_query session)))"
  let ?s' = "s\<lparr>loading := False,
        activeOrders := filter (\<lambda>order. status order \<in> {pending, accepted, in_transit}) ?rows,
        orderHistory := filter (\<lambda>order. status order \<in> {delivered, cancelled}) ?rows\<rparr>"
  have run: "loadOrders b s = Resolved ?s'"
    by (rule loadOrders_success [OF assms(1,2)])
  have "order \<in> set (activeOrders ?s') \<longleftrightarrow> status order \<in> {pending, accepted, in_transit}"
    using assms(3) by simp
  moreover have "order \<in> set (orderHistory ?s') \<longleftrightarrow> status order \<in> {delivered, cancelled}"
    using assms(3) by simp
  ultimately show ?thesis
    using run status_cases [of order] by blast
qed

text \<open>The pending order of the example store lands in \<open>activeOrders\<close> only, the delivered one in \<open>orderHistory\<close> only.\<close>
theorem loadOrders_partition_witness:
  "auth_getSession customer_backend = Some ada \<and>
   error (from_orders customer_backend (orders_query ada)) = None \<and>
   order_T1 \<in> set (or_empty (data (from_orders customer_backend (orders_query ada)))) \<and>
   order_T2 \<in> set (or_empty (data (from_orders customer_backend (orders_query ada)))) \<and>
   status order_T1 \<in> {pending, accepted, in_transit} \<and>
   status order_T2 \<in> {delivered, cancelled} \<and>
   (\<exists>s'. loadOrders customer_backend initial_CustomerDashboard = Resolved s' \<and>
      order_T1 \<in> set (activeOrders s') \<and> order_T1 \<notin> set (orderHistory s')) \<and>
   (\<exists>s'. loadOrders customer_backend initial_CustomerDashboard = Resolved s' \<and>
      order_T2 \<in> set (orderHistory s') \<and> order_T2 \<notin> set (activeOrders s'))"
proof -
  have h1: "auth_getSession customer_backend = Some ada"
    by (rule customer_backend_session)
  have h2: "error (from_orders customer_backend (orders_query ada)) = None"
    by (simp add: customer_backend_orders two_orders_def)
  have h3: "order_T1 \<in> set (or_empty (data (from_orders customer_backend (orders_query ada))))"
    by (simp add: customer_backend_orders two_orders_def or_empty_def)
  have h4: "order_T2 \<in> set (or_empty (data (from_orders customer_backend (orders_query ada))))"
    by (simp add: customer_backend_orders two_orders_def or_empty_def)
  have st1: "status order_T1 \<in> {pending, accepted, in_transit}"
    by (simp add: order_T1_def)
  have st2: "status order_T2 \<in> {delivered, cancelled}"
    by (simp add: order_T2_def)
  from loadOrders_partition [OF h1 h2 h3, of initial_CustomerDashboard] st1
  have c1: "\<exists>s'. loadOrders customer_backend initial_CustomerDashboard = Resolved s' \<and>
      order_T1 \<in> set (activeOrders s') \<and> order_T1 \<notin> set (orderHistory s')"
    by blast
  from loadOrders_partition [OF h1 h2 h4, of initial_CustomerDashboard] st2
  have c2: "\<exists>s'. loadOrders customer_backend initial_CustomerDashboard = Resolved s' \<and>
      order_T2 \<in> set (orderHistory s') \<and> order_T2 \<notin> set (activeOrders s')"
    by blast
  from h1 h2 h3 h4 st1 st2 c1 c2 show ?thesis
    by blast
qed

lemma mset_split_by_status:
  "mset (filter (\<lambda>order. status order \<in> {pending, accepted, in_transit}) rows)
     + mset (filter (\<lambda>order. status order \<in> {delivered, cancelled}) rows) = mset rows"
proof (induction rows)
  case Nil
  show ?case by simp
next
  case (Cons r rows)
  then show ?case by (cases "status r") simp_all
qed

text \<open>
  C2. On a successful fetch, \<open>activeOrders\<close> and \<open>orderHistory\<close> together hold the
  fetched orders as a multiset: none twice, none left out, and no notice is raised. A fetch
  of no orders gives two empty lists.
\<close>
theorem loadOrders_exhaustive:
  assumes "auth_getSession b = Some session"
    and "error (from_orders b (orders_query session)) = None"
  shows "\<exists>s'. loadOrders b s = Resolved s' \<and>
     mset (activeOrders s') + mset (orderHistory s')
       = mset (or_empty (data (from_orders b (orders_query session)))) \<and>
     toasts s' = toasts s \<and>
     (or_empty (data (from_orders b (orders_query session))) = [] \<longrightarrow>
        activeOrders s' = [] \<and> orderHistory s' = [])"
proof -
  let ?rows = "or_empty (data (from_orders b (orders_query session)))"
  let ?s' = "s\<lparr>loading := False,
        activeOrders := filter (\<lambda>order. status order \<in> {pending, accepted, in_transit}) ?rows,
        orderHistory := filter (\<lambda>order. status order \<in> {delivered, cancelled}) ?rows\<rparr>"
  have run: "loadOrders b s = Resolved ?s'"
    by (rule loadOrders_success [OF assms])
  have "mset (activeOrders ?s') + mset (orderHistory ?s') = mset ?rows"
    using mset_split_by_status [of ?rows] by simp
  moreover have "toasts ?s' = toasts s"
    by simp
  moreover have "?rows = [] \<longrightarrow> activeOrders ?s' = [] \<and> orderHistory ?s' = []"
    by simp
  ultimately show ?thesis
    using run by blast
qed

lemma demo_session: "auth_getSession (demo_supabase sess roleData orders prods mutation) = sess"
  by (simp add: demo_supabase_def)

lemma demo_orders:
  "from_orders (demo_supabase sess roleData orders prods mutation) (orders_query ada) = orders"
  by (simp add: demo_supabase_def orders_query_def ada_def)

lemma demo_roles:
  "data (from_user_roles (demo_supabase sess roleData orders prods mutation) q) = roleData"
  by (simp add: demo_supabase_def)

text \<open>A reload on an empty store empties both lists of a dashboard that showed two orders.\<close>
theorem loadOrders_exhaustive_witness:
  "auth_getSession (demo_supabase (Some ada) (Some \<lparr>role = ''customer''\<rparr>) no_rows no_rows None) = Some ada \<and>
   error (from_orders (demo_supabase (Some ada) (Some \<lparr>role = ''customer''\<rparr>) no_rows no_rows None)
     (orders_query ada)) = None \<and>
   or_empty (data (from_orders (demo_supabase (Some ada) (Some \<lparr>role = ''customer''\<rparr>) no_rows no_rows None)
     (orders_query ada))) = [] \<and>
   (\<exists>s'. loadOrders (demo_supabase (Some ada) (Some \<lparr>role = ''customer''\<rparr>) no_rows no_rows None)
        showing_two_orders = Resolved s' \<and>
      activeOrders s' = [] \<and> orderHistory s' = [] \<and> toasts s' = [])"
proof -
  let ?b = "demo_supabase (Some ada) (Some \<lparr>role = ''customer''\<rparr>) no_rows no_rows None"
  have h1: "auth_getSession ?b = Some ada"
    by (simp add: demo_session)
  have h2: "error (from_orders ?b (orders_query ada)) = None"
    by (simp add: demo_orders no_rows_def)
  have h3: "or_empty (data (from_orders ?b (orders_query ada))) = []"
    by (simp add: demo_orders no_rows_def or_empty_def)
  have h4: "toasts showing_two_orders = []"
    by (simp add: showing_two_orders_def initial_CustomerDashboard_def)
  from loadOrders_exhaustive [OF h1 h2, of showing_two_orders] h3 h4
  have "\<exists>s'. loadOrders ?b showing_two_orders = Resolved s' \<and>
      activeOrders s' = [] \<and> orderHistory s' = [] \<and> toasts s' = []"
    by auto
  with h1 h2 h3 show ?thesis by blast
qed

text \<open>
  C4. When the fetch answers with an error, \<open>loadOrders\<close> still resolves: both lists are
  as they were, the notice "Failed to load orders" is raised, and nobody is redirected.
\<close>
theorem loadOrders_fetch_failure:
  assumes "auth_getSession b = Some session"
    and "error (from_orders b (orders_query session)) = Some e"
  shows "\<exists>s'. loadOrders b s = Resolved s' \<and>
     activeOrders s' = activeOrders s \<and> orderHistory s' = orderHistory s \<and>
     toasts s' = toasts s @ [toast_error ''Failed to load orders''] \<and>
     navigations s' = navigations s"
  by (simp add: loadOrders_failure [OF assms])

text \<open>A failed fetch leaves the two orders shown where they are.\<close>
theorem loadOrders_fetch_failure_witness:
  "auth_getSession (demo_supabase (Some ada) (Some \<lparr>role = ''customer''\<rparr>) fetch_failed no_rows None) = Some ada \<and>
   error (from_orders (demo_supabase (Some ada) (Some \<lparr>role = ''customer''\<rparr>) fetch_failed no_rows None)
     (orders_query ada)) = Some (Error ''TypeError: Failed to fetch'') \<and>
   (\<exists>s'. loadOrders (demo_supabase (Some ada) (Some \<lparr>role = ''customer''\<rparr>) fetch_failed no_rows None)
        showing_two_orders = Resolved s' \<and>
      activeOrders s' = [order_T1] \<and> orderHistory s' = [order_T2] \<and>
      toasts s' = [toast_error ''Failed to load orders''])"
proof -
  let ?b = "demo_supabase (Some ada) (Some \<lparr>role = ''customer''\<rparr>) fetch_failed no_rows None"
  have h1: "auth_getSession ?b = Some ada"
    by (simp add: demo_session)
  have h2: "error (from_orders ?b (orders_query ada)) = Some (Error ''TypeError: Failed to fetch'')"
    by (simp add: demo_orders fetch_failed_def)
  have h3: "activeOrders showing_two_orders = [order_T1] \<and> orderHistory showing_two_orders = [order_T2]
      \<and> toasts showing_two_orders = []"
    by (simp add: showing_two_orders_def initial_CustomerDashboard_def)
  from loadOrders_fetch_failure [OF h1 h2, of showing_two_orders] h3
  have "\<exists>s'. loadOrders ?b showing_two_orders = Resolved s' \<and>
      activeOrders s' = [order_T1] \<and> orderHistory s' = [order_T2] \<and>
      toasts s' = [toast_error ''Failed to load orders'']"
    by auto
  with h1 h2 show ?thesis by blast
qed

lemma newest_first_filter: "newest_first later_eq rows \<Longrightarrow> newest_first later_eq (filter p rows)"
  unfolding newest_first_def by (rule sorted_wrt_filter)

text \<open>
  C5. The query asks for descending \<open>created_at\<close>; when the rows come back newest first,
  for whatever order on timestamps the backend uses, both lists are newest first after a
  successful load.
\<close>
theorem loadOrders_newest_first:
  assumes "auth_getSession b = Some session"
    and "error (from_orders b (orders_query session)) = None"
    and "newest_first later_eq (or_empty (data (from_orders b (orders_query session))))"
  shows "order_by (orders_query session) = Some (''created_at'', False) \<and>
     (\<exists>s'. loadOrders b s = Resolved s' \<and>
        newest_first later_eq (activeOrders s') \<and> newest_first later_eq (orderHistory s'))"
proof -
  let ?rows = "or_empty (data (from_orders b (orders_query session)))"
  let ?s' = "s\<lparr>loading := False,
        activeOrders := filter (\<lambda>order. status order \<in> {pending, accepted, in_transit}) ?rows,
        orderHistory := filter (\<lambda>order. status order \<in> {delivered, cancelled}) ?rows\<rparr>"
  have run: "loadOrders b s = Resolved ?s'"
    by (rule loadOrders_success [OF assms(1,2)])
  have "newest_first later_eq (activeOrders ?s')"
    using newest_first_filter [OF assms(3)] by simp
  moreover have "newest_first later_eq (orderHistory ?s')"
    using newest_first_filter [OF assms(3)] by simp
  moreover have "order_by (orders_query session) = Some (''created_at'', False)"
    by (simp add: orders_query_def)
  ultimately show ?thesis
    using run by blast
qed

text \<open>
  The scenario of the specification: a pending order created at T1 and a delivered one
  created at T2 after T1 give \<open>activeOrders = [order_T1]\<close> and \<open>orderHistory = [order_T2]\<close>.
\<close>
theorem loadOrders_newest_first_witness:
  "auth_getSession customer_backend = Some ada \<and>
   error (from_orders customer_backend (orders_query ada)) = None \<and>
   or_empty (data (from_orders customer_backend (orders_query ada))) = [order_T2, order_T1] \<and>
   status order_T1 = pending \<and> status order_T2 = delivered \<and>
   created_at order_T1 < created_at order_T2 \<and>
   newest_first (\<ge>) [order_T2, order_T1] \<and>
   loadOrders customer_backend initial_CustomerDashboard =
     Resolved (initial_CustomerDashboard
       \<lparr>loading := False, activeOrders := [order_T1], orderHistory := [order_T2]\<rparr>) \<and>
   (\<exists>s'. loadOrders customer_backend initial_CustomerDashboard = Resolved s' \<and>
      newest_first (\<ge>) (activeOrders s') \<and> newest_first (\<ge>) (orderHistory s'))"
proof -
  have h1: "auth_getSession customer_backend = Some ada"
    by (rule customer_backend_session)
  have h2: "error (from_orders customer_backend (orders_query ada)) = None"
    by (simp add: customer_backend_orders two_orders_def)
  have rows: "or_empty (data (from_orders customer_backend (orders_query ada))) = [order_T2, order_T1]"
    by (simp add: customer_backend_orders two_orders_def or_empty_def)
  have st: "status order_T1 = pending \<and> status order_T2 = delivered"
    by (simp add: order_T1_def order_T2_def)
  have ts: "created_at order_T1 < created_at order_T2"
    by (simp add: order_T1_def order_T2_def)
  have sorted: "newest_first (\<ge>) [order_T2, order_T1]"
    by (simp add: newest_first_def order_T1_def order_T2_def)
  have h3: "newest_first (\<ge>) (or_empty (data (from_orders customer_backend (orders_query ada))))"
    using sorted by (simp only: rows)
  have run: "loadOrders customer_backend initial_CustomerDashboard =
     Resolved (initial_CustomerDashboard
       \<lparr>loading := False, activeOrders := [order_T1], orderHistory := [order_T2]\<rparr>)"
    using st by (simp add: loadOrders_success [OF h1 h2] rows)
  from loadOrders_newest_first [OF h1 h2 h3, of initial_CustomerDashboard]
  have "\<exists>s'. loadOrders customer_backend initial_CustomerDashboard = Resolved s' \<and>
      newest_first (\<ge>) (activeOrders s') \<and> newest_first (\<ge>) (orderHistory s')"
    by blast
  with h1 h2 rows st ts sorted run show ?thesis by blast
qed

text \<open>
  C6. Calling \<open>loadOrders\<close> a second time against the same backend answers leaves
  \<open>activeOrders\<close> and \<open>orderHistory\<close> as the first call left them.
\<close>
theorem loadOrders_idempotent:
  "\<exists>s1 s2. loadOrders b s = Resolved s1 \<and> loadOrders b s1 = Resolved s2 \<and>
     activeOrders s2 = activeOrders s1 \<and> orderHistory s2 = orderHistory s1"
proof (cases "auth_getSession b")
  case None
  then show ?thesis
    by (simp add: loadOrders_no_session)
next
  case (Some session)
  show ?thesis
  proof (cases "error (from_orders b (orders_query session))")
    case None
    show ?thesis
      by (simp add: loadOrders_success [OF Some None])
  next
    case (Some e)
    show ?thesis
      by (simp add: loadOrders_failure [OF \<open>auth_getSession b = Some session\<close> Some])
  qed
qed

text \<open>
  C9. Without a session \<open>loadOrders\<close> only clears \<open>loading\<close>: no fetch answer is read,
  the lists stay, no notice is raised and nobody is redirected, whereas
  \<open>checkCustomerAndLoadOrders\<close> redirects to the sign-in page.
\<close>
theorem loadOrders_silent_without_session:
  assumes "auth_getSession b = None"
  shows "loadOrders b s = Resolved (s\<lparr>loading := False\<rparr>) \<and>
     checkCustomerAndLoadOrders b s = Resolved (s\<lparr>navigations := navigations s @ [''/auth'']\<rparr>)"
  using assms
  by (simp add: loadOrders_no_session checkCustomerAndLoadOrders_def navigate_def)

text \<open>Signed out, a reload of the freshly rendered dashboard shows nothing new.\<close>
theorem loadOrders_silent_without_session_witness:
  "auth_getSession (demo_supabase None None two_orders no_rows None) = None \<and>
   loadOrders (demo_supabase None None two_orders no_rows None) initial_CustomerDashboard =
     Resolved (initial_CustomerDashboard\<lparr>loading := False\<rparr>) \<and>
   activeOrders (initial_CustomerDashboard\<lparr>loading := False\<rparr>) = [] \<and>
   toasts (initial_CustomerDashboard\<lparr>loading := False\<rparr>) = [] \<and>
   navigations (initial_CustomerDashboard\<lparr>loading := False\<rparr>) = []"
proof -
  have h: "auth_getSession (demo_supabase None None two_orders no_rows None) = None"
    by (simp add: demo_session)
  from loadOrders_silent_without_session [OF h, of initial_CustomerDashboard] h
  show ?thesis
    by (simp add: initial_CustomerDashboard_def)
qed

lemma loadOrders_cases:
  "\<exists>s'. loadOrders b s = Resolved s' \<and> navigations s' = navigations s \<and>
     (toasts s' = toasts s \<or> toasts s' = toasts s @ [toast_error ''Failed to load orders''])"
proof (cases "auth_getSession b")
  case None
  then show ?thesis
    by (simp add: loadOrders_no_session)
next
  case (Some session)
  show ?thesis
  proof (cases "error (from_orders b (orders_query session))")
    case None
    show ?thesis
      by (simp add: loadOrders_success [OF Some None])
  next
    case (Some e)
    show ?thesis
      by (simp add: loadOrders_failure [OF \<open>auth_getSession b = Some session\<close> Some])
  qed
qed

text \<open>
  C7. \<open>checkCustomerAndLoadOrders\<close> redirects to the sign-in page, with no notice, when
  there is no session; raises the access-denied notice and redirects home, loading
  nothing, when the role looked up is not "customer"; and does what \<open>loadOrders\<close> does,
  with no redirect and no access-denied notice, when the role is "customer".
\<close>
theorem checkCustomerAndLoadOrders_gate:
  "(auth_getSession b = None \<longrightarrow>
      checkCustomerAndLoadOrders b s = Resolved (s\<lparr>navigations := navigations s @ [''/auth'']\<rparr>)) \<and>
   (auth_getSession b = Some session \<and>
    role_of (data (from_user_roles b (roles_query session))) \<noteq> Some ''customer'' \<longrightarrow>
      checkCustomerAndLoadOrders b s =
        Resolved (s\<lparr>toasts := toasts s @ [toast_error ''Access denied. Customer account required.''],
                    navigations := navigations s @ [''/'']\<rparr>)) \<and>
   (auth_getSession b = Some session \<and>
    role_of (data (from_user_roles b (roles_query session))) = Some ''customer'' \<longrightarrow>
      checkCustomerAndLoadOrders b s = loadOrders b s \<and>
      (\<exists>s'. checkCustomerAndLoadOrders b s = Resolved s' \<and> navigations s' = navigations s \<and>
         toast_error ''Access denied. Customer account required.'' \<notin> set (toasts s') - set (toasts s)))"
proof (intro conjI impI)
  assume "auth_getSession b = None"
  then show "checkCustomerAndLoadOrders b s = Resolved (s\<lparr>navigations := navigations s @ [''/auth'']\<rparr>)"
    by (simp add: checkCustomerAndLoadOrders_def navigate_def)
next
  assume "auth_getSession b = Some session \<and>
    role_of (data (from_user_roles b (roles_query session))) \<noteq> Some ''customer''"
  then show "checkCustomerAndLoadOrders b s =
        Resolved (s\<lparr>toasts := toasts s @ [toast_error ''Access denied. Customer account required.''],
                    navigations := navigations s @ [''/'']\<rparr>)"
    by (simp add: checkCustomerAndLoadOrders_def navigate_def notify_def)
next
  assume a: "auth_getSession b = Some session \<and>
    role_of (data (from_user_roles b (roles_query session))) = Some ''customer''"
  obtain s1 where s1: "loadOrders b s = Resolved s1"
    and nav: "navigations s1 = navigations s"
    and ts: "toasts s1 = toasts s \<or> toasts s1 = toasts s @ [toast_error ''Failed to load orders'']"
    using loadOrders_cases [of b s] by blast
  from a s1 show run: "checkCustomerAndLoadOrders b s = loadOrders b s"
    by (simp add: checkCustomerAndLoadOrders_def)
  from ts have "toast_error ''Access denied. Customer account required.'' \<notin> set (toasts s1) - set (toasts s)"
    by auto
  with run s1 nav
  show "\<exists>s'. checkCustomerAndLoadOrders b s = Resolved s' \<and> navigations s' = navigations s \<and>
         toast_error ''Access denied. Customer account required.'' \<notin> set (toasts s') - set (toasts s)"
    by simp
qed

text \<open>The three outcomes on a signed-out visitor, a vendor and a customer.\<close>
theorem checkCustomerAndLoadOrders_gate_witness:
  "auth_getSession (demo_supabase None None two_orders no_rows None) = None \<and>
   checkCustomerAndLoadOrders (demo_supabase None None two_orders no_rows None) initial_CustomerDashboard =
     Resolved (initial_CustomerDashboard\<lparr>navigations := [''/auth'']\<rparr>) \<and>
   auth_getSession (demo_supabase (Some ada) (Some \<lparr>role = ''vendor''\<rparr>) two_orders no_rows None) = Some ada \<and>
   role_of (data (from_user_roles (demo_supabase (Some ada) (Some \<lparr>role = ''vendor''\<rparr>) two_orders no_rows None)
     (roles_query ada))) \<noteq> Some ''customer'' \<and>
   checkCustomerAndLoadOrders (demo_supabase (Some ada) (Some \<lparr>role = ''vendor''\<rparr>) two_orders no_rows None)
       initial_CustomerDashboard =
     Resolved (initial_CustomerDashboard
       \<lparr>toasts := [toast_error ''Access denied. Customer account required.''], navigations := [''/'']\<rparr>) \<and>
   auth_getSession customer_backend = Some ada \<and>
   role_of (data (from_user_roles customer_backend (roles_query ada))) = Some ''customer'' \<and>
   checkCustomerAndLoadOrders customer_backend initial_CustomerDashboard =
     Resolved (initial_CustomerDashboard
       \<lparr>loading := False, activeOrders := [order_T1], orderHistory := [order_T2]\<rparr>)"
proof -
  let ?out = "demo_supabase None None two_orders no_rows None"
  let ?vendor = "demo_supabase (Some ada) (Some \<lparr>role = ''vendor''\<rparr>) two_orders no_rows None"
  have init: "toasts initial_CustomerDashboard = [] \<and> navigations initial_CustomerDashboard = []"
    by (simp add: initial_CustomerDashboard_def)
  have a1: "auth_getSession ?out = None"
    by (simp add: demo_session)
  have c1: "checkCustomerAndLoadOrders ?out initial_CustomerDashboard =
     Resolved (initial_CustomerDashboard\<lparr>navigations := [''/auth'']\<rparr>)"
    using checkCustomerAndLoadOrders_gate [of ?out initial_CustomerDashboard ada] a1 init
    by simp
  have a2: "auth_getSession ?vendor = Some ada"
    by (simp add: demo_session)
  have r2: "role_of (data (from_user_roles ?vendor (roles_query ada))) \<noteq> Some ''customer''"
    by (simp add: demo_roles role_of_def)
  have c2: "checkCustomerAndLoadOrders ?vendor initial_CustomerDashboard =
     Resolved (initial_CustomerDashboard
       \<lparr>toasts := [toast_error ''Access denied. Customer account required.''], navigations := [''/'']\<rparr>)"
    using checkCustomerAndLoadOrders_gate [of ?vendor initial_CustomerDashboard ada] a2 r2 init
    by simp
  have a3: "auth_getSession customer_backend = Some ada"
    by (rule customer_backend_session)
  have r3: "role_of (data (from_user_roles customer_backend (roles_query ada))) = Some ''customer''"
    by (simp add: customer_backend_def demo_roles role_of_def)
  have e3: "error (from_orders customer_backend (orders_query ada)) = None"
    by (simp add: customer_backend_orders two_orders_def)
  have rows: "or_empty (data (from_orders customer_backend (orders_query ada))) = [order_T2, order_T1]"
    by (simp add: customer_backend_orders two_orders_def or_empty_def)
  have load: "loadOrders customer_backend initial_CustomerDashboard =
     Resolved (initial_CustomerDashboard
       \<lparr>loading := False, activeOrders := [order_T1], orderHistory := [order_T2]\<rparr>)"
    by (simp add: loadOrders_success [OF a3 e3] rows order_T1_def order_T2_def)
  have c3: "checkCustomerAndLoadOrders customer_backend initial_CustomerDashboard =
     Resolved (initial_CustomerDashboard
       \<lparr>loading := False, activeOrders := [order_T1], orderHistory := [order_T2]\<rparr>)"
    using checkCustomerAndLoadOrders_gate [of customer_backend initial_CustomerDashboard ada] a3 r3 load
    by simp
  from a1 c1 a2 r2 c2 a3 r3 c3 show ?thesis
    by blast
qed

text \<open>
  C3, as stated, fails: an INSERT on the orders table is a change of that table, yet the
  mounted component does not reload on it, although a reload would show an order.
\<close>
theorem every_change_reloads_counterexample:
  "eventType order_inserted = ''INSERT'' \<and> change_table order_inserted = ''orders'' \<and>
   change_signalled customer_backend order_inserted initial_CustomerDashboard = initial_CustomerDashboard \<and>
   loadOrders customer_backend initial_CustomerDashboard =
     Resolved (initial_CustomerDashboard
       \<lparr>loading := False, activeOrders := [order_T1], orderHistory := [order_T2]\<rparr>) \<and>
   activeOrders (change_signalled customer_backend order_inserted initial_CustomerDashboard) \<noteq> [order_T1]"
proof -
  have a3: "auth_getSession customer_backend = Some ada"
    by (rule customer_backend_session)
  have e3: "error (from_orders customer_backend (orders_query ada)) = None"
    by (simp add: customer_backend_orders two_orders_def)
  have rows: "or_empty (data (from_orders customer_backend (orders_query ada))) = [order_T2, order_T1]"
    by (simp add: customer_backend_orders two_orders_def or_empty_def)
  have load: "loadOrders customer_backend initial_CustomerDashboard =
     Resolved (initial_CustomerDashboard
       \<lparr>loading := False, activeOrders := [order_T1], orderHistory := [order_T2]\<rparr>)"
    by (simp add: loadOrders_success [OF a3 e3] rows order_T1_def order_T2_def)
  have skip: "change_signalled customer_backend order_inserted initial_CustomerDashboard
      = initial_CustomerDashboard"
    by (simp add: change_signalled_def delivers_def customer_orders_changes_def order_inserted_def)
  have "eventType order_inserted = ''INSERT'' \<and> change_table order_inserted = ''orders''"
    by (simp add: order_inserted_def)
  moreover have "activeOrders (change_signalled customer_backend order_inserted initial_CustomerDashboard)
      \<noteq> [order_T1]"
    unfolding skip by (simp add: initial_CustomerDashboard_def)
  ultimately show ?thesis
    using skip load by blast
qed

text \<open>
  C3, amended. An UPDATE event on \<open>public.orders\<close> makes the component log the payload
  and run a full \<open>loadOrders\<close>; an event of any other kind leaves the component as it is.
\<close>
theorem change_signalled_update_only:
  "(eventType c = ''UPDATE'' \<and> change_schema c = ''public'' \<and> change_table c = ''orders'' \<longrightarrow>
      Resolved (change_signalled b c s)
        = loadOrders b (s\<lparr>console := console s @ [console_log ''Order updated:'' c]\<rparr>)) \<and>
   (eventType c \<noteq> ''UPDATE'' \<longrightarrow> change_signalled b c s = s)"
proof (intro conjI impI)
  assume a: "eventType c = ''UPDATE'' \<and> change_schema c = ''public'' \<and> change_table c = ''orders''"
  obtain s1 where s1: "loadOrders b (s\<lparr>console := console s @ [console_log ''Order updated:'' c]\<rparr>)
      = Resolved s1"
    using loadOrders_cases by blast
  from a have "delivers customer_orders_changes c"
    by (simp add: delivers_def customer_orders_changes_def)
  then show "Resolved (change_signalled b c s)
        = loadOrders b (s\<lparr>console := console s @ [console_log ''Order updated:'' c]\<rparr>)"
    using s1 by (simp add: change_signalled_def on_postgres_changes_def log_console_def)
next
  assume "eventType c \<noteq> ''UPDATE''"
  then have "\<not> delivers customer_orders_changes c"
    by (auto simp add: delivers_def customer_orders_changes_def)
  then show "change_signalled b c s = s"
    by (simp add: change_signalled_def)
qed

text \<open>An update reloads the two orders of the example store; an insert does nothing.\<close>
theorem change_signalled_update_only_witness:
  "eventType order_updated = ''UPDATE'' \<and> change_schema order_updated = ''public'' \<and>
   change_table order_updated = ''orders'' \<and>
   change_signalled customer_backend order_updated initial_CustomerDashboard =
     initial_CustomerDashboard
       \<lparr>loading := False, console := [console_log ''Order updated:'' order_updated],
        activeOrders := [order_T1], orderHistory := [order_T2]\<rparr> \<and>
   eventType order_inserted \<noteq> ''UPDATE'' \<and>
   change_signalled customer_backend order_inserted initial_CustomerDashboard = initial_CustomerDashboard"
proof -
  let ?logged = "initial_CustomerDashboard
      \<lparr>console := console initial_CustomerDashboard @ [console_log ''Order updated:'' order_updated]\<rparr>"
  have a3: "auth_getSession customer_backend = Some ada"
    by (rule customer_backend_session)
  have e3: "error (from_orders customer_backend (orders_query ada)) = None"
    by (simp add: customer_backend_orders two_orders_def)
  have rows: "or_empty (data (from_orders customer_backend (orders_query ada))) = [order_T2, order_T1]"
    by (simp add: customer_backend_orders two_orders_def or_empty_def)
  have load: "loadOrders customer_backend ?logged =
     Resolved (initial_CustomerDashboard
       \<lparr>loading := False, console := [console_log ''Order updated:'' order_updated],
        activeOrders := [order_T1], orderHistory := [order_T2]\<rparr>)"
    by (simp add: loadOrders_success [OF a3 e3] rows order_T1_def order_T2_def
        initial_CustomerDashboard_def)
  have u: "eventType order_updated = ''UPDATE'' \<and> change_schema order_updated = ''public'' \<and>
      change_table order_updated = ''orders''"
    by (simp add: order_updated_def)
  have i: "eventType order_inserted \<noteq> ''UPDATE''"
    by (simp add: order_inserted_def)
  have c1: "change_signalled customer_backend order_updated initial_CustomerDashboard =
     initial_CustomerDashboard
       \<lparr>loading := False, console := [console_log ''Order updated:'' order_updated],
        activeOrders := [order_T1], orderHistory := [order_T2]\<rparr>"
    using change_signalled_update_only [of order_updated customer_backend initial_CustomerDashboard] u load
    by simp
  have c2: "change_signalled customer_backend order_inserted initial_CustomerDashboard
      = initial_CustomerDashboard"
    using change_signalled_update_only [of order_inserted customer_backend initial_CustomerDashboard] i
    by simp
  from u i c1 c2 show ?thesis
    by blast
qed

subsection \<open>The vendor dashboard\<close>

lemma loadProducts_success:
  assumes "error (from_products b products_query) = None"
  shows "loadProducts b s =
     Resolved (s\<lparr>loading := False, products := or_empty (data (from_products b products_query))\<rparr>)"
  using assms
  by (simp add: loadProducts_def try_finally_def try_catch_def Let_def setProducts_def setLoading_def)

lemma loadProducts_failure:
  assumes "error (from_products b products_query) = Some e"
  shows "loadProducts b s =
     Resolved (s\<lparr>loading := False, toasts := toasts s @ [toast_error ''Failed to load products'']\<rparr>)"
  using assms
  by (simp add: loadProducts_def try_finally_def try_catch_def Let_def notify_def setLoading_def)

text \<open>
  C10. The query of \<open>loadProducts\<close> is on the products table, has no filter and asks for
  descending \<open>created_at\<close>; on success the list stored is the rows the backend answered
  with, and the result does not depend on who is signed in.
\<close>
theorem loadProducts_unscoped:
  "from_table products_query = ''products'' \<and> eq_filters products_query = [] \<and>
   order_by products_query = Some (''created_at'', False) \<and>
   (error (from_products b products_query) = None \<longrightarrow>
      loadProducts b s =
        Resolved (s\<lparr>loading := False,
                    products := or_empty (data (from_products b products_query))\<rparr>)) \<and>
   loadProducts (b\<lparr>auth_getSession := whoever\<rparr>) s = loadProducts b s"
proof -
  have "from_table products_query = ''products'' \<and> eq_filters products_query = [] \<and>
      order_by products_query = Some (''created_at'', False)"
    by (simp add: products_query_def)
  moreover have "loadProducts (b\<lparr>auth_getSession := whoever\<rparr>) s = loadProducts b s"
    by (simp add: loadProducts_def)
  ultimately show ?thesis
    using loadProducts_success [of b s] by blast
qed

lemma vendor_backend_products:
  "from_products (vendor_backend mutation) q = \<lparr>data = Some [yam, garri], error = None\<rparr>"
  by (simp add: vendor_backend_def demo_supabase_def)

text \<open>Whatever the backend answers is stored, here the products of the example store.\<close>
theorem loadProducts_unscoped_witness:
  "error (from_products (vendor_backend None) products_query) = None \<and>
   auth_getSession (vendor_backend None) = Some bisi \<and>
   loadProducts (vendor_backend None) initial_VendorDashboard =
     Resolved (initial_VendorDashboard\<lparr>loading := False, products := [yam, garri]\<rparr>) \<and>
   loadProducts ((vendor_backend None)\<lparr>auth_getSession := None\<rparr>) initial_VendorDashboard =
     Resolved (initial_VendorDashboard\<lparr>loading := False, products := [yam, garri]\<rparr>)"
proof -
  have h: "error (from_products (vendor_backend None) products_query) = None"
    by (simp add: vendor_backend_products)
  have who: "auth_getSession (vendor_backend None) = Some bisi"
    by (simp add: vendor_backend_def demo_supabase_def)
  have rows: "or_empty (data (from_products (vendor_backend None) products_query)) = [yam, garri]"
    by (simp add: vendor_backend_products or_empty_def)
  from loadProducts_unscoped [of "vendor_backend None" initial_VendorDashboard None] h
  have "loadProducts (vendor_backend None) initial_VendorDashboard =
     Resolved (initial_VendorDashboard\<lparr>loading := False, products := [yam, garri]\<rparr>) \<and>
   loadProducts ((vendor_backend None)\<lparr>auth_getSession := None\<rparr>) initial_VendorDashboard =
     Resolved (initial_VendorDashboard\<lparr>loading := False, products := [yam, garri]\<rparr>)"
    by (simp add: rows)
  with h who show ?thesis by blast
qed

lemma loadProducts_cases:
  "loadProducts b s = Resolved (s\<lparr>loading := False,
       products := or_empty (data (from_products b products_query))\<rparr>) \<or>
   loadProducts b s = Resolved (s\<lparr>loading := False,
       toasts := toasts s @ [toast_error ''Failed to load products'']\<rparr>)"
  by (cases "error (from_products b products_query)")
     (simp_all add: loadProducts_success loadProducts_failure)

lemma submitted_toasts:
  "\<exists>rest. toasts (submitted b s) = toasts s @ rest"
  using loadProducts_cases [of b "resetForm (setIsDialogOpen False s)"]
  by (auto simp add: submitted_def resetForm_def setIsDialogOpen_def)

lemma setUploading_reads:
  "formData (setUploading v s) = formData s"
  "editingProduct (setUploading v s) = editingProduct s"
  "imageFile (setUploading v s) = imageFile s"
  by (simp_all add: setUploading_def)

lemma imageUrl_to_save_setUploading:
  "imageUrl_to_save rt b (setUploading v s) = imageUrl_to_save rt b s"
  by (simp add: imageUrl_to_save_def setUploading_def split: option.split)

lemma handleSubmit_try_cases:
  "(\<exists>m. handleSubmit_try rt b s = Resolved (notify (toast_error m) s)) \<or>
   (\<exists>e. handleSubmit_try rt b s = Rejected e s) \<or>
   (\<exists>m. handleSubmit_try rt b s = Resolved (submitted b (notify (toast_success m) s)))"
proof (cases "productSchema_issues rt (formData s)")
  case (Cons firstError more)
  then have "handleSubmit_try rt b s = Resolved (notify (toast_error firstError) s)"
    by (simp add: handleSubmit_try_def)
  then show ?thesis
    by blast
next
  case Nil
  show ?thesis
  proof (cases "auth_getSession b")
    case None
    with Nil have "handleSubmit_try rt b s = Rejected (Error ''Not authenticated'') s"
      by (simp add: handleSubmit_try_def)
    then show ?thesis
      by blast
  next
    case (Some session)
    show ?thesis
    proof (cases "imageUrl_to_save rt b s")
      case (Inl e)
      with Nil Some have "handleSubmit_try rt b s = Rejected e s"
        by (simp add: handleSubmit_try_def)
      then show ?thesis
        by blast
    next
      case (Inr imageUrl)
      with Nil Some show ?thesis
        by (simp add: handleSubmit_try_def Let_def split: option.split) blast
    qed
  qed
qed

lemma handleSubmit_outcome:
  "\<exists>s'. handleSubmit rt b s = Resolved s' \<and>
     ((\<exists>m rest. toasts s' = toasts s @ toast_success m # rest) \<or>
      ((\<exists>m. toasts s' = toasts s @ [toast_error m]) \<and>
       formData s' = formData s \<and> imageFile s' = imageFile s \<and>
       imagePreview s' = imagePreview s \<and> editingProduct s' = editingProduct s \<and>
       isDialogOpen s' = isDialogOpen s))"
proof -
  let ?s1 = "setUploading True s"
  consider (invalid) m where "handleSubmit_try rt b ?s1 = Resolved (notify (toast_error m) ?s1)"
    | (thrown) e where "handleSubmit_try rt b ?s1 = Rejected e ?s1"
    | (saved) m where "handleSubmit_try rt b ?s1 = Resolved (submitted b (notify (toast_success m) ?s1))"
    using handleSubmit_try_cases [of rt b ?s1] by blast
  then show ?thesis
  proof cases
    case invalid
    then show ?thesis
      by (simp add: handleSubmit_def try_finally_def try_catch_def notify_def setUploading_def)
  next
    case thrown
    then show ?thesis
      by (simp add: handleSubmit_def try_finally_def try_catch_def notify_def setUploading_def)
  next
    case saved
    obtain rest where "toasts (submitted b (notify (toast_success m) ?s1))
        = toasts (notify (toast_success m) ?s1) @ rest"
      using submitted_toasts by blast
    then have "toasts (submitted b (notify (toast_success m) ?s1)) = toasts s @ toast_success m # rest"
      by (simp add: notify_def setUploading_def)
    with saved show ?thesis
      by (simp add: handleSubmit_def try_finally_def try_catch_def setUploading_def)
  qed
qed

lemma handleSubmit_insert_refused:
  assumes "productSchema_issues rt (formData s) = []"
    and "auth_getSession b = Some session"
    and "imageUrl_to_save rt b s = Inr imageUrl"
    and "editingProduct s = None"
    and "insert_product b (user_id session)
           (values_of rt (productSchema_data rt (formData s)) imageUrl) = Some e"
  shows "handleSubmit rt b s =
     Resolved (s\<lparr>toasts := toasts s @ [toast_error (submit_failure_message e None)],
                 uploading := False\<rparr>)"
proof -
  have "handleSubmit_try rt b (setUploading True s) = Rejected e (setUploading True s)"
    using assms
    by (simp add: handleSubmit_try_def imageUrl_to_save_setUploading setUploading_reads)
  then show ?thesis
    using assms(4)
    by (simp add: handleSubmit_def try_finally_def try_catch_def notify_def setUploading_def)
qed

lemma handleSubmit_update_refused:
  assumes "productSchema_issues rt (formData s) = []"
    and "auth_getSession b = Some session"
    and "imageUrl_to_save rt b s = Inr imageUrl"
    and "editingProduct s = Some p"
    and "update_product b (values_of rt (productSchema_data rt (formData s)) imageUrl)
           [(''id'', p_id p)] = Some e"
  shows "handleSubmit rt b s =
     Resolved (s\<lparr>toasts := toasts s @ [toast_error (submit_failure_message e (Some p))],
                 uploading := False\<rparr>)"
proof -
  have "handleSubmit_try rt b (setUploading True s) = Rejected e (setUploading True s)"
    using assms
    by (simp add: handleSubmit_try_def imageUrl_to_save_setUploading setUploading_reads)
  then show ?thesis
    using assms(4)
    by (simp add: handleSubmit_def try_finally_def try_catch_def notify_def setUploading_def)
qed

lemma handleDelete_resolves: "\<exists>s'. handleDelete b pid s = Resolved s'"
  using loadProducts_cases [of b "notify (toast_success ''Product deleted successfully!'') s"]
  by (cases "delete_product b [(''id'', pid)]")
     (auto simp add: handleDelete_def try_catch_def)

lemma handleDelete_refused:
  assumes "delete_product b [(''id'', pid)] = Some e"
  shows "handleDelete b pid s =
     Resolved (s\<lparr>toasts := toasts s @ [toast_error ''Failed to delete product'']\<rparr>)"
  using assms by (simp add: handleDelete_def try_catch_def notify_def)

text \<open>
  C8. \<open>handleSubmit\<close> and \<open>handleDelete\<close> always resolve. \<open>handleSubmit\<close> either
  raises a success notice or raises one error notice and leaves the form, the chosen image,
  the product under edit and the dialog as they were. When the insert, the update or the
  delete is answered with an error, the outcome is the state before with that one error
  notice added (and \<open>uploading\<close> cleared by \<open>handleSubmit\<close>).
\<close>
theorem vendor_mutation_failure:
  "(\<exists>s'. handleSubmit rt b s = Resolved s' \<and>
      ((\<exists>m rest. toasts s' = toasts s @ toast_success m # rest) \<or>
       ((\<exists>m. toasts s' = toasts s @ [toast_error m]) \<and>
        formData s' = formData s \<and> imageFile s' = imageFile s \<and>
        imagePreview s' = imagePreview s \<and> editingProduct s' = editingProduct s \<and>
        isDialogOpen s' = isDialogOpen s))) \<and>
   (productSchema_issues rt (formData s) = [] \<and> auth_getSession b = Some session \<and>
    imageUrl_to_save rt b s = Inr imageUrl \<and> editingProduct s = None \<and>
    insert_product b (user_id session)
      (values_of rt (productSchema_data rt (formData s)) imageUrl) = Some e \<longrightarrow>
      handleSubmit rt b s =
        Resolved (s\<lparr>toasts := toasts s @ [toast_error (submit_failure_message e None)],
                    uploading := False\<rparr>)) \<and>
   (productSchema_issues rt (formData s) = [] \<and> auth_getSession b = Some session \<and>
    imageUrl_to_save rt b s = Inr imageUrl \<and> editingProduct s = Some p \<and>
    update_product b (values_of rt (productSchema_data rt (formData s)) imageUrl)
      [(''id'', p_id p)] = Some e \<longrightarrow>
      handleSubmit rt b s =
        Resolved (s\<lparr>toasts := toasts s @ [toast_error (submit_failure_message e (Some p))],
                    uploading := False\<rparr>)) \<and>
   (delete_product b [(''id'', pid)] = Some e \<longrightarrow>
      handleDelete b pid s =
        Resolved (s\<lparr>toasts := toasts s @ [toast_error ''Failed to delete product'']\<rparr>)) \<and>
   (\<exists>s'. handleDelete b pid s = Resolved s')"
  using handleSubmit_outcome [of rt b s] handleDelete_resolves [of b pid s]
    handleSubmit_insert_refused [of rt s b session imageUrl e]
    handleSubmit_update_refused [of rt s b session imageUrl p e]
    handleDelete_refused [of b pid e s]
  by blast

lemma vendor_backend_calls:
  "auth_getSession (vendor_backend mutation) = Some bisi"
  "insert_product (vendor_backend mutation) vendor vals = mutation"
  "update_product (vendor_backend mutation) vals filters = mutation"
  "delete_product (vendor_backend mutation) filters = mutation"
  by (simp_all add: vendor_backend_def demo_supabase_def)

lemma adding_yam_valid: "productSchema_issues demo_js (formData adding_yam) = []"
  by (simp add: productSchema_issues_def max_issue_def demo_js_def adding_yam_def
      initial_VendorDashboard_def)

lemma editing_garri_valid: "productSchema_issues demo_js (formData editing_garri) = []"
  by (simp add: productSchema_issues_def max_issue_def demo_js_def editing_garri_def
      initial_VendorDashboard_def)

text \<open>A refused insert, a refused update and a refused delete, each keeping the page as it was.\<close>
theorem vendor_mutation_failure_witness:
  "productSchema_issues demo_js (formData adding_yam) = [] \<and>
   auth_getSession (vendor_backend (Some permission_denied)) = Some bisi \<and>
   imageUrl_to_save demo_js (vendor_backend (Some permission_denied)) adding_yam = Inr None \<and>
   editingProduct adding_yam = None \<and>
   insert_product (vendor_backend (Some permission_denied)) (user_id bisi)
     (values_of demo_js (productSchema_data demo_js (formData adding_yam)) None)
     = Some permission_denied \<and>
   handleSubmit demo_js (vendor_backend (Some permission_denied)) adding_yam =
     Resolved (adding_yam\<lparr>toasts := [toast_error ''permission denied for table products'']\<rparr>) \<and>
   productSchema_issues demo_js (formData editing_garri) = [] \<and>
   auth_getSession (vendor_backend (Some (Error ''''))) = Some bisi \<and>
   imageUrl_to_save demo_js (vendor_backend (Some (Error ''''))) editing_garri = Inr None \<and>
   editingProduct editing_garri = Some garri \<and>
   update_product (vendor_backend (Some (Error '''')))
     (values_of demo_js (productSchema_data demo_js (formData editing_garri)) None)
     [(''id'', p_id garri)] = Some (Error '''') \<and>
   handleSubmit demo_js (vendor_backend (Some (Error ''''))) editing_garri =
     Resolved (editing_garri\<lparr>toasts := [toast_error ''Failed to update product'']\<rparr>) \<and>
   delete_product (vendor_backend (Some permission_denied)) [(''id'', ''p-2'')]
     = Some permission_denied \<and>
   handleDelete (vendor_backend (Some permission_denied)) ''p-2'' adding_yam =
     Resolved (adding_yam\<lparr>toasts := [toast_error ''Failed to delete product'']\<rparr>)"
proof -
  let ?refuse = "vendor_backend (Some permission_denied)"
  let ?silent = "vendor_backend (Some (Error ''''))"
  have a1: "productSchema_issues demo_js (formData adding_yam) = []"
    by (rule adding_yam_valid)
  have a2: "auth_getSession ?refuse = Some bisi"
    by (simp add: vendor_backend_calls)
  have a3: "imageUrl_to_save demo_js ?refuse adding_yam = Inr None"
    by (simp add: imageUrl_to_save_def current_image_url_def adding_yam_def initial_VendorDashboard_def)
  have a4: "editingProduct adding_yam = None"
    by (simp add: adding_yam_def initial_VendorDashboard_def)
  have a5: "insert_product ?refuse (user_id bisi)
      (values_of demo_js (productSchema_data demo_js (formData adding_yam)) None) = Some permission_denied"
    by (simp add: vendor_backend_calls)
  have yam0: "toasts adding_yam = [] \<and> uploading adding_yam = False"
    by (simp add: adding_yam_def initial_VendorDashboard_def)
  have c1: "handleSubmit demo_js ?refuse adding_yam =
     Resolved (adding_yam\<lparr>toasts := [toast_error ''permission denied for table products'']\<rparr>)"
    using vendor_mutation_failure [of demo_js ?refuse adding_yam bisi None permission_denied]
      a1 a2 a3 a4 a5 yam0
    by (simp add: submit_failure_message_def permission_denied_def)
  have b1: "productSchema_issues demo_js (formData editing_garri) = []"
    by (rule editing_garri_valid)
  have b2: "auth_getSession ?silent = Some bisi"
    by (simp add: vendor_backend_calls)
  have b3: "imageUrl_to_save demo_js ?silent editing_garri = Inr None"
    by (simp add: imageUrl_to_save_def current_image_url_def editing_garri_def
        initial_VendorDashboard_def garri_def)
  have b4: "editingProduct editing_garri = Some garri"
    by (simp add: editing_garri_def initial_VendorDashboard_def)
  have b5: "update_product ?silent
      (values_of demo_js (productSchema_data demo_js (formData editing_garri)) None)
      [(''id'', p_id garri)] = Some (Error '''')"
    by (simp add: vendor_backend_calls)
  have garri0: "toasts editing_garri = [] \<and> uploading editing_garri = False"
    by (simp add: editing_garri_def initial_VendorDashboard_def)
  have c2: "handleSubmit demo_js ?silent editing_garri =
     Resolved (editing_garri\<lparr>toasts := [toast_error ''Failed to update product'']\<rparr>)"
    using vendor_mutation_failure [of demo_js ?silent editing_garri bisi None "Error ''''" garri]
      b1 b2 b3 b4 b5 garri0
    by (simp add: submit_failure_message_def)
  have d1: "delete_product ?refuse [(''id'', ''p-2'')] = Some permission_denied"
    by (simp add: vendor_backend_calls)
  have c3: "handleDelete ?refuse ''p-2'' adding_yam =
     Resolved (adding_yam\<lparr>toasts := [toast_error ''Failed to delete product'']\<rparr>)"
    using vendor_mutation_failure [of demo_js ?refuse adding_yam bisi None permission_denied
        garri "''p-2''"] d1 yam0
    by simp
  from a1 a2 a3 a4 a5 c1 b1 b2 b3 b4 b5 c2 d1 c3 show ?thesis
    by blast
qed

end
